theory Spec2Isabelle
  imports Complex_Main
begin

section \<open>plot\_performance.py: a shallow embedding\<close>

text \<open>
  The script \<^verbatim>\<open>src/tools/plot_performance.py\<close> reads a JSON file of named
  timings, draws a horizontal bar chart and saves it beside the input. It is a
  straight-line program: argument check, existence check, load, two list
  comprehensions, the plotting calls, one loop, save, print.

  The model below follows the script line by line. What the script takes from
  Python and its libraries (exceptions, \<^verbatim>\<open>json\<close> values, \<^verbatim>\<open>pathlib\<close>, the
  file system, \<^verbatim>\<open>matplotlib\<close>) is modelled first, each from its documented
  behaviour on a POSIX system.
\<close>

subsection \<open>Python exceptions and values\<close>

text \<open>The error numbers with which \<^verbatim>\<open>stat\<close> can fail.\<close>

datatype errno =
    EACCES | EBADF | EFAULT | ELOOP | ENAMETOOLONG | ENOENT | ENOMEM | ENOTDIR | EOVERFLOW

datatype py_exc =
    JSONDecodeError
  | TypeError
  | KeyError
  | ValueError
  | FileNotFoundError
  | IsADirectoryError
  | OSError errno

text \<open>
  What \<^verbatim>\<open>json.loads\<close> returns: \<^verbatim>\<open>None\<close>, a bool, a number, a \<^verbatim>\<open>str\<close>, a
  \<^verbatim>\<open>list\<close> or a \<^verbatim>\<open>dict\<close> (kept as an association list in insertion order;
  the keys of a dict are distinct, and on any other list lookup takes the
  first binding of a key).
  Numbers are exact reals. This is Python's arithmetic only where no rounding
  and no overflow occurs: an \<^verbatim>\<open>int\<close> beyond the range of a double (where
  \<^verbatim>\<open>int * float\<close> raises \<^verbatim>\<open>OverflowError\<close>), the rounding of \<^verbatim>\<open>float\<close>
  arithmetic, \<^verbatim>\<open>-0.0\<close>, and the values \<^verbatim>\<open>NaN\<close> and \<^verbatim>\<open>Infinity\<close> that
  \<^verbatim>\<open>json.loads\<close> also accepts have no counterpart here. No property below
  states a computed coordinate or the outcome of a run on such numbers; the
  concrete runs use small integers, on which the two agree.
\<close>

datatype json =
    JNull
  | JBool bool
  | JNum real
  | JStr string
  | JArr "json list"
  | JObj "(string \<times> json) list"

text \<open>\<^verbatim>\<open>for d in data\<close>: a list yields its elements, a dict its keys, a string
  its characters; anything else is not iterable.\<close>

fun py_iter :: "json \<Rightarrow> py_exc + json list" where
  "py_iter (JArr xs) = Inr xs"
| "py_iter (JObj kvs) = Inr (map JStr (remdups (map fst kvs)))"
| "py_iter (JStr s) = Inr (map (\<lambda>c. JStr [c]) s)"
| "py_iter JNull = Inl TypeError"
| "py_iter (JBool b) = Inl TypeError"
| "py_iter (JNum r) = Inl TypeError"

text \<open>\<^verbatim>\<open>d[key]\<close> with a string key: a dict is looked up (\<^verbatim>\<open>KeyError\<close> when the
  key is absent), a list or a string takes integer indices only, the other
  values are not subscriptable.\<close>

fun py_getitem :: "json \<Rightarrow> string \<Rightarrow> py_exc + json" where
  "py_getitem (JObj kvs) key =
     (case map_of kvs key of None \<Rightarrow> Inl KeyError | Some v \<Rightarrow> Inr v)"
| "py_getitem (JArr xs) key = Inl TypeError"
| "py_getitem (JStr s) key = Inl TypeError"
| "py_getitem JNull key = Inl TypeError"
| "py_getitem (JBool b) key = Inl TypeError"
| "py_getitem (JNum r) key = Inl TypeError"

text \<open>A list comprehension \<^verbatim>\<open>[d[key] for d in data]\<close>: the first element that
  raises ends it.\<close>

fun getitems :: "string \<Rightarrow> json list \<Rightarrow> py_exc + json list" where
  "getitems key [] = Inr []"
| "getitems key (d # ds) =
     (case py_getitem d key of
        Inl e \<Rightarrow> Inl e
      | Inr v \<Rightarrow> (case getitems key ds of Inl e \<Rightarrow> Inl e | Inr vs \<Rightarrow> Inr (v # vs)))"

definition comprehension :: "string \<Rightarrow> json \<Rightarrow> py_exc + json list" where
  "comprehension key data =
     (case py_iter data of Inl e \<Rightarrow> Inl e | Inr ds \<Rightarrow> getitems key ds)"

text \<open>Numbers as Python sees them: \<^verbatim>\<open>bool\<close> is a subclass of \<^verbatim>\<open>int\<close>.\<close>

fun as_num :: "json \<Rightarrow> real option" where
  "as_num (JNum r) = Some r"
| "as_num (JBool b) = Some (if b then 1 else 0)"
| "as_num v = None"

text \<open>\<^verbatim>\<open>x > y\<close>, \<^verbatim>\<open>x * 0.01\<close> and \<^verbatim>\<open>x + y\<close> on numbers. On any other operand
  the model raises \<^verbatim>\<open>TypeError\<close>, which is what Python does for every such
  operand of \<^verbatim>\<open>*\<close> and \<^verbatim>\<open>+\<close> with a float; the orderings Python defines
  between two strings or two lists are not modelled.\<close>

definition py_gt :: "json \<Rightarrow> json \<Rightarrow> py_exc + bool" where
  "py_gt x y =
     (case (as_num x, as_num y) of
        (Some a, Some b) \<Rightarrow> Inr (a > b)
      | _ \<Rightarrow> Inl TypeError)"

definition py_mul :: "json \<Rightarrow> real \<Rightarrow> py_exc + real" where
  "py_mul x c = (case as_num x of Some a \<Rightarrow> Inr (a * c) | None \<Rightarrow> Inl TypeError)"

definition py_add :: "json \<Rightarrow> real \<Rightarrow> py_exc + real" where
  "py_add x c = (case as_num x of Some a \<Rightarrow> Inr (a + c) | None \<Rightarrow> Inl TypeError)"

text \<open>\<^verbatim>\<open>max(xs)\<close>: \<^verbatim>\<open>ValueError\<close> on an empty list; otherwise the first element
  is the candidate and each later element replaces it when it compares
  greater.\<close>

fun max_from :: "json \<Rightarrow> json list \<Rightarrow> py_exc + json" where
  "max_from m [] = Inr m"
| "max_from m (x # xs) =
     (case py_gt x m of
        Inl e \<Rightarrow> Inl e
      | Inr b \<Rightarrow> max_from (if b then x else m) xs)"

fun py_max :: "json list \<Rightarrow> py_exc + json" where
  "py_max [] = Inl ValueError"
| "py_max (x # xs) = max_from x xs"

subsection \<open>Formatting with \<^verbatim>\<open>.0f\<close>\<close>

definition digit_char :: "nat \<Rightarrow> char" where
  "digit_char d = ''0123456789'' ! d"

fun show_nat :: "nat \<Rightarrow> string" where
  "show_nat n = (if n < 10 then [digit_char n] else show_nat (n div 10) @ [digit_char (n mod 10)])"

declare show_nat.simps [simp del]

text \<open>Rounding to the nearest integer, ties to the even one.\<close>

definition round_half_even :: "real \<Rightarrow> int" where
  "round_half_even x =
     (let f = \<lfloor>x\<rfloor>; d = x - of_int f
      in if d < 1 / 2 then f
         else if 1 / 2 < d then f + 1
         else if even f then f else f + 1)"

text \<open>\<^verbatim>\<open>format(v, '.0f')\<close>: the sign of a negative value, then the rounded
  magnitude with no fractional digits (so \<^verbatim>\<open>-0.4\<close> gives \<^verbatim>\<open>-0\<close>).\<close>

definition fmt_0f :: "real \<Rightarrow> string" where
  "fmt_0f x = (if x < 0 then ''-'' else []) @ show_nat (nat (round_half_even \<bar>x\<bar>))"

text \<open>\<^verbatim>\<open>f"{v:.0f}"\<close>: a string does not know the format code \<^verbatim>\<open>f\<close>
  (\<^verbatim>\<open>ValueError\<close>); \<^verbatim>\<open>None\<close>, a list and a dict take no format string at all.\<close>

definition py_format_0f :: "json \<Rightarrow> py_exc + string" where
  "py_format_0f v =
     (case as_num v of
        Some a \<Rightarrow> Inr (fmt_0f a)
      | None \<Rightarrow> (case v of JStr s \<Rightarrow> Inl ValueError | _ \<Rightarrow> Inl TypeError))"

subsection \<open>pathlib on POSIX\<close>

text \<open>
  A \<^verbatim>\<open>PurePosixPath\<close> is its root (\<^verbatim>\<open>''\<close>, \<^verbatim>\<open>'/'\<close> or \<^verbatim>\<open>'//'\<close>) and the list of its
  components; the drive is always empty.
\<close>

record path =
  p_root :: string
  p_tail :: "string list"

text \<open>\<^verbatim>\<open>s.split('/')\<close>.\<close>

fun split_sep :: "string \<Rightarrow> string list" where
  "split_sep [] = [[]]"
| "split_sep (c # cs) =
     (if c = CHR ''/'' then [] # split_sep cs
      else (case split_sep cs of [] \<Rightarrow> [[c]] | w # ws \<Rightarrow> (c # w) # ws))"

text \<open>\<^verbatim>\<open>splitroot\<close>: the leading slashes are stripped; exactly two of them make
  the root \<^verbatim>\<open>'//'\<close>, any other positive number the root \<^verbatim>\<open>'/'\<close>.\<close>

definition splitroot :: "string \<Rightarrow> string \<times> string" where
  "splitroot part =
     (if part \<noteq> [] \<and> hd part = CHR ''/'' then
        (let stripped = dropWhile (\<lambda>c. c = CHR ''/'') part
         in if length part - length stripped = 2 then (''//'', stripped) else (''/'', stripped))
      else ([], part))"

text \<open>\<^verbatim>\<open>Path(s)\<close>: empty components and \<^verbatim>\<open>'.'\<close> are dropped.\<close>

definition Path :: "string \<Rightarrow> path" where
  "Path s =
     (let (rt, rel) = splitroot s
      in \<lparr>p_root = rt, p_tail = filter (\<lambda>x. x \<noteq> [] \<and> x \<noteq> ''.'') (split_sep rel)\<rparr>)"

text \<open>\<^verbatim>\<open>'/'.join(parts)\<close> and \<^verbatim>\<open>str(p)\<close>.\<close>

fun join_sep :: "string list \<Rightarrow> string" where
  "join_sep [] = []"
| "join_sep [x] = x"
| "join_sep (x # y # ys) = x @ ''/'' @ join_sep (y # ys)"

definition path_str :: "path \<Rightarrow> string" where
  "path_str p =
     (let s = p_root p @ join_sep (p_tail p) in if s = [] then ''.'' else s)"

definition name :: "path \<Rightarrow> string" where
  "name p = (if p_tail p = [] then [] else last (p_tail p))"

text \<open>\<^verbatim>\<open>s.rfind('.')\<close>, with \<^verbatim>\<open>None\<close> for Python's \<^verbatim>\<open>-1\<close>.\<close>

fun rfind_dot :: "string \<Rightarrow> nat option" where
  "rfind_dot [] = None"
| "rfind_dot (c # cs) =
     (case rfind_dot cs of
        Some i \<Rightarrow> Some (Suc i)
      | None \<Rightarrow> (if c = CHR ''.'' then Some 0 else None))"

definition stem :: "path \<Rightarrow> string" where
  "stem p =
     (case rfind_dot (name p) of
        Some i \<Rightarrow> (if 0 < i \<and> i + 1 < length (name p) then take i (name p) else name p)
      | None \<Rightarrow> name p)"

definition suffix :: "path \<Rightarrow> string" where
  "suffix p =
     (case rfind_dot (name p) of
        Some i \<Rightarrow> (if 0 < i \<and> i + 1 < length (name p) then drop i (name p) else [])
      | None \<Rightarrow> [])"

definition parent :: "path \<Rightarrow> path" where
  "parent p = (if p_tail p = [] then p else p\<lparr>p_tail := butlast (p_tail p)\<rparr>)"

text \<open>\<^verbatim>\<open>p / key\<close>: a rooted key replaces the path, any other key is appended.\<close>

definition truediv :: "path \<Rightarrow> string \<Rightarrow> path" where
  "truediv p key =
     (let q = Path key
      in if p_root q \<noteq> [] then q else p\<lparr>p_tail := p_tail p @ p_tail q\<rparr>)"

subsection \<open>The file system\<close>

text \<open>
  The file system maps the string handed to the system call to what \<^verbatim>\<open>stat\<close>
  finds there: a regular file with its text, a directory, or nothing. When it
  finds nothing, \<^verbatim>\<open>stat\<close> has failed, and \<open>stat_errno\<close> is the error number it
  failed with: \<^verbatim>\<open>ENOENT\<close> when there simply is no such entry, but also for
  instance \<^verbatim>\<open>ENAMETOOLONG\<close> for a name the file system refuses. Read
  permissions, symbolic links and non-text files are left out.
\<close>

datatype entry = RegularFile string | Directory

record world =
  argv :: "string list"
  fs :: "string \<Rightarrow> entry option"
  stat_errno :: "string \<Rightarrow> errno"

text \<open>\<^verbatim>\<open>Path.exists()\<close> calls \<^verbatim>\<open>stat\<close>. Of its failures it takes the four of
  \<^verbatim>\<open>_IGNORED_ERRNOS\<close> as "does not exist" and raises every other one again.\<close>

definition ignore_error :: "errno \<Rightarrow> bool" where
  "ignore_error e = (e = ENOENT \<or> e = ENOTDIR \<or> e = EBADF \<or> e = ELOOP)"

definition exists :: "world \<Rightarrow> path \<Rightarrow> py_exc + bool" where
  "exists w p =
     (case fs w (path_str p) of
        Some entry \<Rightarrow> Inr True
      | None \<Rightarrow>
          (if ignore_error (stat_errno w (path_str p)) then Inr False
           else Inl (OSError (stat_errno w (path_str p)))))"

definition read_text :: "world \<Rightarrow> path \<Rightarrow> py_exc + string" where
  "read_text w p =
     (case fs w (path_str p) of
        None \<Rightarrow> Inl FileNotFoundError
      | Some Directory \<Rightarrow> Inl IsADirectoryError
      | Some (RegularFile txt) \<Rightarrow> Inr txt)"

subsection \<open>matplotlib\<close>

text \<open>
  The chart as \<^verbatim>\<open>matplotlib\<close> holds it before rasterisation: the bars of
  \<^verbatim>\<open>barh\<close>, the axis label, the title and the text annotations.

  \<^verbatim>\<open>barh(y, width, color=cs)\<close> draws one bar per entry. The colours are cycled
  over the bars (no colour at all gives \<^verbatim>\<open>'none'\<close>). String labels make the
  axis categorical: each distinct label gets the next integer position in
  order of first appearance, and a bar sits at the position of its label.
  The model is for string labels; what \<^verbatim>\<open>matplotlib\<close> does with labels of
  other types is not modelled.
\<close>

record bar =
  bar_pos :: nat
  bar_label :: json
  bar_width :: json
  bar_color :: string

record annotation =
  text_x :: real
  text_y :: nat
  text_s :: string
  text_va :: string

record figure =
  fig_style :: string
  fig_size :: "nat \<times> nat"
  fig_bars :: "bar list"
  fig_xlabel :: string
  fig_title :: string
  fig_texts :: "annotation list"
  fig_tight :: bool

fun categories :: "'a list \<Rightarrow> 'a list \<Rightarrow> 'a list" where
  "categories seen [] = seen"
| "categories seen (x # xs) = categories (if x \<in> set seen then seen else seen @ [x]) xs"

fun index_of :: "'a \<Rightarrow> 'a list \<Rightarrow> nat" where
  "index_of x [] = 0"
| "index_of x (y # ys) = (if x = y then 0 else Suc (index_of x ys))"

definition cycle_color :: "string list \<Rightarrow> nat \<Rightarrow> string" where
  "cycle_color cs i = (if cs = [] then ''none'' else cs ! (i mod length cs))"

definition barh :: "json list \<Rightarrow> json list \<Rightarrow> string list \<Rightarrow> bar list" where
  "barh ys widths cs =
     map (\<lambda>(i, y, wd).
            \<lparr>bar_pos = index_of y (categories [] ys), bar_label = y,
             bar_width = wd, bar_color = cycle_color cs i\<rparr>)
         (zip [0..<length ys] (zip ys widths))"

text \<open>\<^verbatim>\<open>fig.savefig(out)\<close> opens the file for writing, which fails on an
  existing directory; otherwise the image is written.\<close>

definition savefig :: "world \<Rightarrow> figure \<Rightarrow> path \<Rightarrow> py_exc + (string \<times> figure) list" where
  "savefig w fig out =
     (case fs w (path_str out) of
        Some Directory \<Rightarrow> Inl IsADirectoryError
      | _ \<Rightarrow> Inr [(path_str out, fig)])"

subsection \<open>The script\<close>

text \<open>
  A run ends with \<^verbatim>\<open>sys.exit(n)\<close>, by falling off the end (status 0) or with an
  uncaught exception, for which the interpreter prints a traceback and exits
  with status 1. The result of a run is what it printed on standard output,
  the files it wrote and how it ended.
\<close>

datatype ending = Exited nat | Uncaught py_exc

fun exit_code :: "ending \<Rightarrow> nat" where
  "exit_code (Exited n) = n"
| "exit_code (Uncaught e) = 1"

record result =
  stdout :: "string list"
  written :: "(string \<times> figure) list"
  status :: ending

definition crash :: "py_exc \<Rightarrow> result" where
  "crash e = \<lparr>stdout = [], written = [], status = Uncaught e\<rparr>"

definition palette :: "string list" where
  "palette = [''#2b8cbe'', ''#7bccc4'', ''#a6bddb'', ''#d0d1e6'']"

definition chart_title :: string where
  "chart_title = ''Performance baseline '' @ [char_of (226::nat), char_of (128::nat), char_of (148::nat)]
     @ '' Avg elapsed per scenario''"

text \<open>The loop \<^verbatim>\<open>for i, v in enumerate(avgs): ax.text(v + max(avgs)*0.01, i,
  f"{v:.0f} ms", va='center')\<close>, from index \<open>i\<close> on; \<open>avgs\<close> is the whole list,
  \<open>vs\<close> what is left of it.\<close>

fun annotate_from :: "json list \<Rightarrow> nat \<Rightarrow> json list \<Rightarrow> py_exc + annotation list" where
  "annotate_from avgs i [] = Inr []"
| "annotate_from avgs i (v # vs) =
     (case py_max avgs of Inl e \<Rightarrow> Inl e | Inr m \<Rightarrow>
     (case py_mul m (1 / 100) of Inl e \<Rightarrow> Inl e | Inr off \<Rightarrow>
     (case py_add v off of Inl e \<Rightarrow> Inl e | Inr x \<Rightarrow>
     (case py_format_0f v of Inl e \<Rightarrow> Inl e | Inr s \<Rightarrow>
     (case annotate_from avgs (Suc i) vs of Inl e \<Rightarrow> Inl e | Inr ts \<Rightarrow>
        Inr (\<lparr>text_x = x, text_y = i, text_s = s @ '' ms'', text_va = ''center''\<rparr> # ts))))))"

definition annotate :: "json list \<Rightarrow> py_exc + annotation list" where
  "annotate avgs = annotate_from avgs 0 avgs"

text \<open>The whole script. \<open>loads\<close> is \<^verbatim>\<open>json.loads\<close>, the parser of the standard
  library, taken as a parameter.\<close>

definition main :: "(string \<Rightarrow> py_exc + json) \<Rightarrow> world \<Rightarrow> result" where
  "main loads w =
     (if length (argv w) < 2 then
        \<lparr>stdout = [''Usage: plot_performance.py <baseline.json>''], written = [],
         status = Exited 2\<rparr>
      else
        let p = Path (argv w ! 1) in
        (case exists w p of Inl e \<Rightarrow> crash e | Inr found \<Rightarrow>
        if \<not> found then
          \<lparr>stdout = [''File not found: '' @ path_str p], written = [], status = Exited 2\<rparr>
        else
          (case read_text w p of Inl e \<Rightarrow> crash e | Inr txt \<Rightarrow>
          (case loads txt of Inl e \<Rightarrow> crash e | Inr data \<Rightarrow>
          (case comprehension ''Name'' data of Inl e \<Rightarrow> crash e | Inr names \<Rightarrow>
          (case comprehension ''AvgMs'' data of Inl e \<Rightarrow> crash e | Inr avgs \<Rightarrow>
          (case annotate avgs of Inl e \<Rightarrow> crash e | Inr texts \<Rightarrow>
            (let fig = \<lparr>fig_style = ''ggplot'', fig_size = (8, 4),
                        fig_bars = barh names avgs (take (length names) palette),
                        fig_xlabel = ''Average elapsed (ms)'', fig_title = chart_title,
                        fig_texts = texts, fig_tight = True\<rparr>;
                 out = truediv (parent p) (''plot-'' @ stem p @ ''.png'')
             in (case savefig w fig out of
                   Inl e \<Rightarrow> crash e
                 | Inr files \<Rightarrow>
                     \<lparr>stdout = [''Wrote '' @ path_str out], written = files,
                      status = Exited 0\<rparr>)))))))))"

subsection \<open>Vocabulary for the properties\<close>

text \<open>The figure the script has built when it reaches \<^verbatim>\<open>savefig\<close>, and the
  path it saves to, as functions of what was extracted.\<close>

definition the_figure :: "json list \<Rightarrow> json list \<Rightarrow> annotation list \<Rightarrow> figure" where
  "the_figure names avgs texts =
     \<lparr>fig_style = ''ggplot'', fig_size = (8, 4),
      fig_bars = barh names avgs (take (length names) palette),
      fig_xlabel = ''Average elapsed (ms)'', fig_title = chart_title,
      fig_texts = texts, fig_tight = True\<rparr>"

definition out_path :: "path \<Rightarrow> path" where
  "out_path p = truediv (parent p) (''plot-'' @ stem p @ ''.png'')"

text \<open>A performance record as the input format describes it: an object with a
  string \<^verbatim>\<open>Name\<close> and a numeric \<^verbatim>\<open>AvgMs\<close>.\<close>

definition is_record :: "json \<Rightarrow> bool" where
  "is_record d =
     (case d of
        JObj kvs \<Rightarrow>
          (case (map_of kvs ''Name'', map_of kvs ''AvgMs'') of
             (Some (JStr n), Some (JNum v)) \<Rightarrow> True
           | _ \<Rightarrow> False)
      | _ \<Rightarrow> False)"

text \<open>The parsed documents on which the two comprehensions cannot both
  succeed: a value that is not iterable, a non-empty string or object (its
  characters and keys are strings, which take no string index), and an array
  with an element that is not an object carrying both fields.\<close>

definition has_fields :: "json \<Rightarrow> bool" where
  "has_fields d =
     (case d of
        JObj kvs \<Rightarrow> map_of kvs ''Name'' \<noteq> None \<and> map_of kvs ''AvgMs'' \<noteq> None
      | _ \<Rightarrow> False)"

definition rejected :: "json \<Rightarrow> bool" where
  "rejected data =
     (case data of
        JNull \<Rightarrow> True
      | JBool b \<Rightarrow> True
      | JNum r \<Rightarrow> True
      | JStr s \<Rightarrow> s \<noteq> []
      | JObj kvs \<Rightarrow> kvs \<noteq> []
      | JArr xs \<Rightarrow> \<not> list_all has_fields xs)"

subsection \<open>Sample inputs\<close>

text \<open>
  A small file system for concrete runs: the file \<^verbatim>\<open>data/run.results.json\<close>
  with a given text, the directories \<^verbatim>\<open>data\<close> and \<^verbatim>\<open>/tmp\<close>, and nothing
  else; a path with a component of more than 255 characters is refused with
  \<^verbatim>\<open>ENAMETOOLONG\<close>, as the file systems of Linux do. The documents are written
  out together with what \<^verbatim>\<open>json.loads\<close> returns on them; \<open>sample_loads\<close> is
  \<^verbatim>\<open>json.loads\<close> on these documents and rejects every other text.
\<close>

definition sample_world :: "string \<Rightarrow> string \<Rightarrow> world" where
  "sample_world arg content =
     \<lparr>argv = [''plot_performance.py'', arg],
      fs = (\<lambda>s. if s = ''data/run.results.json'' then Some (RegularFile content)
                else if s = ''data'' \<or> s = ''/tmp'' then Some Directory
                else None),
      stat_errno = (\<lambda>s. if list_ex (\<lambda>c. 255 < length c) (split_sep s) then ENAMETOOLONG
                        else ENOENT)\<rparr>"

definition two_text :: string where
  \<open>two_text = ''[{"Name": "First", "AvgMs": 123}, {"Name": "Second", "AvgMs": 15.5}]''\<close>

definition two_doc :: json where
  "two_doc = JArr [JObj [(''Name'', JStr ''First''), (''AvgMs'', JNum 123)],
                   JObj [(''Name'', JStr ''Second''), (''AvgMs'', JNum (31 / 2))]]"

definition dup_text :: string where
  \<open>dup_text = ''[{"Name": "A", "AvgMs": 10}, {"Name": "A", "AvgMs": 20}, {"Name": "B", "AvgMs": 30}]''\<close>

definition dup_doc :: json where
  "dup_doc = JArr [JObj [(''Name'', JStr ''A''), (''AvgMs'', JNum 10)],
                   JObj [(''Name'', JStr ''A''), (''AvgMs'', JNum 20)],
                   JObj [(''Name'', JStr ''B''), (''AvgMs'', JNum 30)]]"

definition five_text :: string where
  \<open>five_text = ''[{"Name": "a", "AvgMs": 1}, {"Name": "b", "AvgMs": 2}, {"Name": "c", "AvgMs": 3}, {"Name": "d", "AvgMs": 4}, {"Name": "e", "AvgMs": 5}]''\<close>

definition five_doc :: json where
  "five_doc = JArr [JObj [(''Name'', JStr ''a''), (''AvgMs'', JNum 1)],
                    JObj [(''Name'', JStr ''b''), (''AvgMs'', JNum 2)],
                    JObj [(''Name'', JStr ''c''), (''AvgMs'', JNum 3)],
                    JObj [(''Name'', JStr ''d''), (''AvgMs'', JNum 4)],
                    JObj [(''Name'', JStr ''e''), (''AvgMs'', JNum 5)]]"

definition nameless_text :: string where
  \<open>nameless_text = ''[{"AvgMs": 10}]''\<close>

definition nameless_doc :: json where
  "nameless_doc = JArr [JObj [(''AvgMs'', JNum 10)]]"

definition sample_loads :: "string \<Rightarrow> py_exc + json" where
  "sample_loads s =
     (if s = ''[]'' then Inr (JArr [])
      else if s = ''{}'' then Inr (JObj [])
      else if s = two_text then Inr two_doc
      else if s = dup_text then Inr dup_doc
      else if s = five_text then Inr five_doc
      else if s = nameless_text then Inr nameless_doc
      else Inl JSONDecodeError)"

section \<open>Auxiliary facts\<close>

subsection \<open>The comprehensions\<close>

lemma getitems_length: "getitems k ds = Inr vs \<Longrightarrow> length vs = length ds"
  by (induction ds arbitrary: vs) (auto split: sum.splits)

lemma getitems_nth:
  "getitems k ds = Inr vs \<Longrightarrow> i < length ds \<Longrightarrow> py_getitem (ds ! i) k = Inr (vs ! i)"
proof (induction ds arbitrary: vs i)
  case Nil
  then show ?case by simp
next
  case (Cons d ds)
  then show ?case by (cases i) (auto split: sum.splits)
qed

lemma py_getitem_error: "py_getitem d k = Inl e \<Longrightarrow> e = TypeError \<or> e = KeyError"
  by (cases d) (auto split: option.splits)

lemma getitems_error: "getitems k ds = Inl e \<Longrightarrow> e = TypeError \<or> e = KeyError"
  by (induction ds) (auto split: sum.splits dest: py_getitem_error)

lemma getitems_fails:
  assumes "d \<in> set ds" and "\<forall>v. py_getitem d k \<noteq> Inr v"
  shows "\<exists>e. getitems k ds = Inl e"
  using assms
proof (induction ds)
  case Nil
  then show ?case by simp
next
  case (Cons x xs)
  then show ?case by (cases "py_getitem x k"; cases "getitems k xs") auto
qed

subsection \<open>Runs of the script\<close>

text \<open>A run that wrote a file went through every step, and conversely.\<close>

lemma main_written:
  assumes "written (main loads w) \<noteq> []"
  shows "\<exists>txt data names avgs texts.
           2 \<le> length (argv w)
         \<and> fs w (path_str (Path (argv w ! 1))) = Some (RegularFile txt)
         \<and> loads txt = Inr data
         \<and> comprehension ''Name'' data = Inr names
         \<and> comprehension ''AvgMs'' data = Inr avgs
         \<and> annotate avgs = Inr texts
         \<and> fs w (path_str (out_path (Path (argv w ! 1)))) \<noteq> Some Directory
         \<and> main loads w =
             \<lparr>stdout = [''Wrote '' @ path_str (out_path (Path (argv w ! 1)))],
              written = [(path_str (out_path (Path (argv w ! 1))), the_figure names avgs texts)],
              status = Exited 0\<rparr>"
  using assms
  by (auto simp: main_def Let_def crash_def exists_def read_text_def savefig_def
        the_figure_def out_path_def
      split: if_splits sum.splits option.splits entry.splits)

lemma main_exit0:
  assumes "status (main loads w) = Exited 0"
  shows "written (main loads w) \<noteq> []"
  using assms
  by (auto simp: main_def Let_def crash_def exists_def read_text_def savefig_def
      split: if_splits sum.splits option.splits entry.splits)

lemma main_run:
  assumes "2 \<le> length (argv w)"
    and "fs w (path_str (Path (argv w ! 1))) = Some (RegularFile txt)"
    and "loads txt = Inr data"
    and "comprehension ''Name'' data = Inr names"
    and "comprehension ''AvgMs'' data = Inr avgs"
    and "annotate avgs = Inr texts"
    and "fs w (path_str (out_path (Path (argv w ! 1)))) \<noteq> Some Directory"
  shows "main loads w =
             \<lparr>stdout = [''Wrote '' @ path_str (out_path (Path (argv w ! 1)))],
              written = [(path_str (out_path (Path (argv w ! 1))), the_figure names avgs texts)],
              status = Exited 0\<rparr>"
  using assms
  by (auto simp: main_def Let_def crash_def exists_def read_text_def savefig_def
        the_figure_def out_path_def
      split: if_splits sum.splits option.splits entry.splits)

lemma main_load_error:
  assumes "2 \<le> length (argv w)"
    and "fs w (path_str (Path (argv w ! 1))) = Some (RegularFile txt)"
    and "loads txt = Inl e"
  shows "main loads w = crash e"
  using assms by (simp add: main_def Let_def exists_def read_text_def)

lemma main_extract_error:
  assumes "2 \<le> length (argv w)"
    and "fs w (path_str (Path (argv w ! 1))) = Some (RegularFile txt)"
    and "loads txt = Inr data"
    and "comprehension ''Name'' data = Inl e
         \<or> (\<exists>names. comprehension ''Name'' data = Inr names) \<and> comprehension ''AvgMs'' data = Inl e"
  shows "main loads w = crash e"
  using assms by (auto simp: main_def Let_def exists_def read_text_def)

lemma main_stat_error:
  assumes "2 \<le> length (argv w)"
    and "fs w (path_str (Path (argv w ! 1))) = None"
    and "\<not> ignore_error (stat_errno w (path_str (Path (argv w ! 1))))"
  shows "main loads w = crash (OSError (stat_errno w (path_str (Path (argv w ! 1)))))"
  using assms by (simp add: main_def Let_def exists_def)

subsection \<open>Paths\<close>

lemma split_sep_no_slash: "x \<in> set (split_sep s) \<Longrightarrow> CHR ''/'' \<notin> set x"
  by (induction s arbitrary: x) (auto split: list.splits if_splits)

lemma split_sep_single: "CHR ''/'' \<notin> set s \<Longrightarrow> split_sep s = [s]"
  by (induction s) auto

lemma Path_tail_component:
  assumes "x \<in> set (p_tail (Path s))"
  shows "x \<noteq> [] \<and> x \<noteq> ''.'' \<and> CHR ''/'' \<notin> set x"
  using assms
  by (auto simp: Path_def Let_def split_sep_no_slash split: prod.splits)

lemma name_no_slash: "CHR ''/'' \<notin> set (name (Path s))"
proof (cases "p_tail (Path s) = []")
  case True
  then show ?thesis by (simp add: name_def)
next
  case False
  then have "last (p_tail (Path s)) \<in> set (p_tail (Path s))" by simp
  then show ?thesis
    using False Path_tail_component [of "last (p_tail (Path s))" s] by (simp add: name_def)
qed

lemma stem_subset: "set (stem p) \<subseteq> set (name p)"
  by (auto simp: stem_def split: option.splits dest: in_set_takeD)

lemma stem_no_slash: "CHR ''/'' \<notin> set (stem (Path s))"
  using stem_subset [of "Path s"] name_no_slash [of s] by blast

lemma Path_plain:
  assumes "CHR ''/'' \<notin> set k" "k \<noteq> []" "k \<noteq> ''.''"
  shows "Path k = \<lparr>p_root = [], p_tail = [k]\<rparr>"
proof -
  from assms have "hd k \<noteq> CHR ''/''" by (cases k) auto
  then have "splitroot k = ([], k)" by (simp add: splitroot_def)
  then show ?thesis using assms by (simp add: Path_def split_sep_single)
qed

lemma parent_parts:
  "p_root (parent p) = p_root p" "p_tail (parent p) = butlast (p_tail p)"
  by (simp_all add: parent_def)

lemma out_path_parts:
  "out_path (Path s) =
     \<lparr>p_root = p_root (parent (Path s)),
      p_tail = p_tail (parent (Path s)) @ [''plot-'' @ stem (Path s) @ ''.png'']\<rparr>"
proof -
  have "Path (''plot-'' @ stem (Path s) @ ''.png'')
      = \<lparr>p_root = [], p_tail = [''plot-'' @ stem (Path s) @ ''.png'']\<rparr>"
    using stem_no_slash [of s] by (intro Path_plain) auto
  then show ?thesis
    by (simp add: out_path_def truediv_def parent_def Let_def)
qed

lemma join_sep_snoc:
  "join_sep (xs @ [k]) = (if xs = [] then k else join_sep xs @ ''/'' @ k)"
  by (induction xs rule: join_sep.induct) auto

lemma join_sep_nonempty: "xs \<noteq> [] \<Longrightarrow> \<forall>x\<in>set xs. x \<noteq> [] \<Longrightarrow> join_sep xs \<noteq> []"
  by (induction xs rule: join_sep.induct) auto

lemma out_path_str:
  "path_str (out_path (Path s)) =
     (if p_tail (parent (Path s)) = [] then p_root (Path s) @ ''plot-'' @ stem (Path s) @ ''.png''
      else path_str (parent (Path s)) @ ''/'' @ ''plot-'' @ stem (Path s) @ ''.png'')"
proof (cases "butlast (p_tail (Path s)) = []")
  case True
  then show ?thesis
    by (simp add: out_path_parts parent_parts path_str_def Let_def)
next
  case False
  have "\<forall>x\<in>set (butlast (p_tail (Path s))). x \<noteq> []"
    using Path_tail_component by (meson in_set_butlastD)
  then have "join_sep (butlast (p_tail (Path s))) \<noteq> []"
    using False join_sep_nonempty by blast
  then show ?thesis using False
    by (simp add: out_path_parts parent_parts path_str_def Let_def join_sep_snoc)
qed

lemma rfind_dot_None: "rfind_dot s = None \<longleftrightarrow> CHR ''.'' \<notin> set s"
  by (induction s) (auto split: option.splits if_splits)

lemma rfind_dot_Some:
  "rfind_dot s = Some i \<Longrightarrow> i < length s \<and> s ! i = CHR ''.'' \<and> CHR ''.'' \<notin> set (drop (Suc i) s)"
  by (induction s arbitrary: i) (auto simp: rfind_dot_None split: option.splits if_splits)

lemma rfind_dot_append:
  "CHR ''.'' \<notin> set b \<Longrightarrow> rfind_dot (a @ CHR ''.'' # b) = Some (length a)"
proof (induction a)
  case Nil
  then have "rfind_dot b = None" by (simp add: rfind_dot_None)
  then show ?case by simp
next
  case (Cons c a)
  then show ?case by simp
qed

lemma stem_suffix: "stem p @ suffix p = name p"
  by (simp add: stem_def suffix_def split: option.splits)

lemma stem_ext:
  assumes "name p = a @ CHR ''.'' # b" "a \<noteq> []" "b \<noteq> []" "CHR ''.'' \<notin> set b"
  shows "stem p = a"
  using assms by (simp add: stem_def rfind_dot_append)

lemma stem_no_ext:
  assumes "\<not> (\<exists>a b. name p = a @ CHR ''.'' # b \<and> a \<noteq> [] \<and> b \<noteq> [] \<and> CHR ''.'' \<notin> set b)"
  shows "stem p = name p"
proof (cases "rfind_dot (name p)")
  case None
  then show ?thesis by (simp add: stem_def)
next
  case (Some i)
  show ?thesis
  proof (cases "0 < i \<and> i + 1 < length (name p)")
    case False
    then show ?thesis using Some by (simp add: stem_def)
  next
    case True
    from rfind_dot_Some [OF Some]
    have i: "i < length (name p)" "name p ! i = CHR ''.''"
      "CHR ''.'' \<notin> set (drop (Suc i) (name p))" by auto
    have "name p = take i (name p) @ CHR ''.'' # drop (Suc i) (name p)"
      using i by (metis id_take_nth_drop)
    moreover have "take i (name p) \<noteq> []" "drop (Suc i) (name p) \<noteq> []"
      using True i by auto
    ultimately show ?thesis using assms i(3) by blast
  qed
qed

subsection \<open>The chart\<close>

lemma barh_length: "length ys = length ws \<Longrightarrow> length (barh ys ws cs) = length ys"
  by (simp add: barh_def)

lemma barh_nth:
  assumes "length ys = length ws" "i < length ys"
  shows "barh ys ws cs ! i =
           \<lparr>bar_pos = index_of (ys ! i) (categories [] ys), bar_label = ys ! i,
            bar_width = ws ! i, bar_color = cycle_color cs i\<rparr>"
  using assms by (simp add: barh_def)

lemma cycle_palette:
  assumes "i < n"
  shows "cycle_color (take n palette) i = palette ! (i mod 4)"
proof (cases "4 \<le> n")
  case True
  then have "take n palette = palette" by (simp add: palette_def)
  then show ?thesis by (simp add: cycle_color_def) (simp add: palette_def)
next
  case False
  then have n: "length (take n palette) = n" by (simp add: palette_def)
  have "take n palette \<noteq> []" using assms n by auto
  moreover have "i mod n = i" "i mod 4 = i" using assms False by auto
  ultimately show ?thesis using assms n by (simp add: cycle_color_def)
qed

lemma palette_distinct: "distinct palette \<and> length palette = 4"
  by (simp add: palette_def)

lemma getitems_member:
  "getitems k ds = Inr vs \<Longrightarrow> d \<in> set ds \<Longrightarrow> \<exists>v. py_getitem d k = Inr v"
  by (induction ds arbitrary: vs) (auto split: sum.splits)

lemma no_fields:
  assumes "\<not> has_fields d" and "py_getitem d ''Name'' = Inr v"
  shows "\<forall>u. py_getitem d ''AvgMs'' \<noteq> Inr u"
  using assms by (cases d) (auto simp: has_fields_def split: option.splits)

lemma rejected_extract:
  assumes "rejected data"
  shows "\<exists>e. (comprehension ''Name'' data = Inl e
              \<or> (\<exists>names. comprehension ''Name'' data = Inr names)
                  \<and> comprehension ''AvgMs'' data = Inl e)
            \<and> (e = TypeError \<or> e = KeyError)"
proof (cases data)
  case (JStr s)
  then obtain c cs where "s = c # cs" using assms by (cases s) (auto simp: rejected_def)
  then show ?thesis using JStr by (simp add: comprehension_def)
next
  case (JObj kvs)
  then have "remdups (map fst kvs) \<noteq> []" using assms by (simp add: rejected_def)
  then obtain k ks where "remdups (map fst kvs) = k # ks" by (cases "remdups (map fst kvs)") auto
  then show ?thesis using JObj by (simp add: comprehension_def)
next
  case (JArr xs)
  then obtain d where d: "d \<in> set xs" "\<not> has_fields d"
    using assms by (auto simp: rejected_def list_all_iff)
  show ?thesis
  proof (cases "getitems ''Name'' xs")
    case (Inl e)
    then show ?thesis using JArr getitems_error [OF Inl] by (auto simp: comprehension_def)
  next
    case (Inr names)
    from getitems_member [OF Inr d(1)] obtain v where "py_getitem d ''Name'' = Inr v" by blast
    from no_fields [OF d(2) this] have "\<forall>u. py_getitem d ''AvgMs'' \<noteq> Inr u" .
    from getitems_fails [OF d(1) this] obtain e where e: "getitems ''AvgMs'' xs = Inl e" by blast
    then show ?thesis using JArr Inr getitems_error [OF e] by (auto simp: comprehension_def)
  qed
qed (use assms in \<open>simp_all add: comprehension_def\<close>)

lemma main_array:
  assumes "fs w (path_str (Path (argv w ! 1))) = Some (RegularFile txt)"
    and "loads txt = Inr (JArr recs)"
    and "written (main loads w) = [(out, fig)]"
  shows "\<exists>names avgs texts.
           getitems ''Name'' recs = Inr names
         \<and> getitems ''AvgMs'' recs = Inr avgs
         \<and> annotate avgs = Inr texts
         \<and> fig = the_figure names avgs texts"
proof -
  from assms(3) have "written (main loads w) \<noteq> []" by simp
  from main_written [OF this] obtain txt' data names avgs texts where
    m: "fs w (path_str (Path (argv w ! 1))) = Some (RegularFile txt')"
       "loads txt' = Inr data"
       "comprehension ''Name'' data = Inr names"
       "comprehension ''AvgMs'' data = Inr avgs"
       "annotate avgs = Inr texts"
       "main loads w =
          \<lparr>stdout = [''Wrote '' @ path_str (out_path (Path (argv w ! 1)))],
           written = [(path_str (out_path (Path (argv w ! 1))), the_figure names avgs texts)],
           status = Exited 0\<rparr>"
    by blast
  from m(1) assms(1) have "txt' = txt" by simp
  with m(2) assms(2) have data: "data = JArr recs" by simp
  from m(6) assms(3) have "fig = the_figure names avgs texts" by simp
  then show ?thesis using m(3,4,5) data by (auto simp: comprehension_def)
qed

subsection \<open>Evaluating concrete runs\<close>

lemma show_nat_numeral:
  "show_nat (numeral k) =
     (if numeral k < (10::nat) then [digit_char (numeral k)]
      else show_nat (numeral k div 10) @ [digit_char (numeral k mod 10)])"
  by (rule show_nat.simps)

lemma show_nat_0: "show_nat 0 = ''0''"
  by (simp add: show_nat.simps digit_char_def)

lemma show_nat_1: "show_nat (Suc 0) = ''1''"
  by (simp add: show_nat.simps digit_char_def)

lemmas fmt_eval = fmt_0f_def round_half_even_def show_nat_numeral show_nat_0 show_nat_1
  digit_char_def

lemmas path_eval = Path_def splitroot_def path_str_def out_path_def truediv_def parent_def
  stem_def name_def

lemma sample_loads_eval:
  "sample_loads ''[]'' = Inr (JArr [])"
  "sample_loads ''{}'' = Inr (JObj [])"
  "sample_loads two_text = Inr two_doc"
  "sample_loads dup_text = Inr dup_doc"
  "sample_loads five_text = Inr five_doc"
  "sample_loads nameless_text = Inr nameless_doc"
  by (simp_all add: sample_loads_def two_text_def dup_text_def five_text_def nameless_text_def)

lemma sample_path_eval:
  "path_str (Path ''data/run.results.json'') = ''data/run.results.json''"
  "path_str (out_path (Path ''data/run.results.json'')) = ''data/plot-run.results.png''"
  "stem (Path ''data/run.results.json'') = ''run.results''"
  "path_str (Path ''data'') = ''data''"
  "path_str (Path ''/tmp'') = ''/tmp''"
  "path_str (Path ''/tmp/does-not-exist.json'') = ''/tmp/does-not-exist.json''"
  by (simp_all add: path_eval Let_def)

lemma sample_world_eval:
  "argv (sample_world a c) = [''plot_performance.py'', a]"
  "fs (sample_world a c) ''data/run.results.json'' = Some (RegularFile c)"
  "fs (sample_world a c) ''data/plot-run.results.png'' = None"
  "fs (sample_world a c) ''data'' = Some Directory"
  "fs (sample_world a c) ''/tmp'' = Some Directory"
  "fs (sample_world a c) ''/tmp/does-not-exist.json'' = None"
  "stat_errno (sample_world a c) ''/tmp/does-not-exist.json'' = ENOENT"
  by (simp_all add: sample_world_def)

text \<open>A name of more than 255 characters, with nothing on disk: \<^verbatim>\<open>stat\<close>
  fails with \<^verbatim>\<open>ENAMETOOLONG\<close>, \<^verbatim>\<open>exists()\<close> raises, and the script ends
  with the uncaught \<^verbatim>\<open>OSError\<close> rather than with "File not found".\<close>

lemma long_name_run:
  assumes "CHR ''/'' \<notin> set n" and "255 < length n"
  shows "main sample_loads (sample_world n c) = crash (OSError ENAMETOOLONG)"
proof -
  let ?w = "sample_world n c"
  have ne: "n \<noteq> []" "n \<noteq> ''.''" using assms(2) by auto
  have "Path n = \<lparr>p_root = [], p_tail = [n]\<rparr>" by (rule Path_plain [OF assms(1) ne])
  then have p: "path_str (Path (argv ?w ! 1)) = n"
    using ne by (simp add: sample_world_def path_str_def)
  have "n \<noteq> ''data/run.results.json''" "n \<noteq> ''data''" "n \<noteq> ''/tmp''"
    using assms(2) by auto
  then have f: "fs ?w n = None" by (simp add: sample_world_def)
  have e: "stat_errno ?w n = ENAMETOOLONG"
    using assms(2) by (simp add: sample_world_def split_sep_single [OF assms(1)])
  have a: "2 \<le> length (argv ?w)" by (simp add: sample_world_def)
  have "\<not> ignore_error (stat_errno ?w (path_str (Path (argv ?w ! 1))))"
    unfolding p e by (simp add: ignore_error_def)
  from main_stat_error [where loads = sample_loads, OF a _ this] f show ?thesis
    unfolding p e by simp
qed

lemma long_name_example:
  "main sample_loads (sample_world (replicate 300 CHR ''a'' @ ''.json'') ''[]'')
     = crash (OSError ENAMETOOLONG)"
  by (rule long_name_run) auto

lemma sample_run:
  assumes "sample_loads c = Inr data"
    and "comprehension ''Name'' data = Inr names"
    and "comprehension ''AvgMs'' data = Inr avgs"
    and "annotate avgs = Inr texts"
  shows "main sample_loads (sample_world ''data/run.results.json'' c) =
           \<lparr>stdout = [''Wrote data/plot-run.results.png''],
            written = [(''data/plot-run.results.png'', the_figure names avgs texts)],
            status = Exited 0\<rparr>"
  using main_run [of "sample_world ''data/run.results.json'' c" c sample_loads data names avgs texts]
    assms
  by (simp add: sample_world_eval sample_path_eval)

lemmas chart_eval = comprehension_def annotate_def py_mul_def py_add_def py_gt_def
  py_format_0f_def fmt_eval Let_def

lemma five_run:
  "main sample_loads (sample_world ''data/run.results.json'' five_text) =
     \<lparr>stdout = [''Wrote data/plot-run.results.png''],
      written = [(''data/plot-run.results.png'',
         the_figure [JStr ''a'', JStr ''b'', JStr ''c'', JStr ''d'', JStr ''e'']
           [JNum 1, JNum 2, JNum 3, JNum 4, JNum 5]
           [\<lparr>text_x = 21 / 20, text_y = 0, text_s = ''1 ms'', text_va = ''center''\<rparr>,
            \<lparr>text_x = 41 / 20, text_y = 1, text_s = ''2 ms'', text_va = ''center''\<rparr>,
            \<lparr>text_x = 61 / 20, text_y = 2, text_s = ''3 ms'', text_va = ''center''\<rparr>,
            \<lparr>text_x = 81 / 20, text_y = 3, text_s = ''4 ms'', text_va = ''center''\<rparr>,
            \<lparr>text_x = 101 / 20, text_y = 4, text_s = ''5 ms'', text_va = ''center''\<rparr>])],
      status = Exited 0\<rparr>"
  by (rule sample_run [OF sample_loads_eval(5)]) (simp_all add: five_doc_def chart_eval)

lemma dup_run:
  "main sample_loads (sample_world ''data/run.results.json'' dup_text) =
     \<lparr>stdout = [''Wrote data/plot-run.results.png''],
      written = [(''data/plot-run.results.png'',
         the_figure [JStr ''A'', JStr ''A'', JStr ''B''] [JNum 10, JNum 20, JNum 30]
           [\<lparr>text_x = 103 / 10, text_y = 0, text_s = ''10 ms'', text_va = ''center''\<rparr>,
            \<lparr>text_x = 203 / 10, text_y = 1, text_s = ''20 ms'', text_va = ''center''\<rparr>,
            \<lparr>text_x = 303 / 10, text_y = 2, text_s = ''30 ms'', text_va = ''center''\<rparr>])],
      status = Exited 0\<rparr>"
  by (rule sample_run [OF sample_loads_eval(4)]) (simp_all add: dup_doc_def chart_eval)

lemma empty_object_run:
  "main sample_loads (sample_world ''data/run.results.json'' ''{}'') =
     \<lparr>stdout = [''Wrote data/plot-run.results.png''],
      written = [(''data/plot-run.results.png'', the_figure [] [] [])],
      status = Exited 0\<rparr>"
  by (rule sample_run [OF sample_loads_eval(2)]) (simp_all add: chart_eval)

lemma two_run:
  "main sample_loads (sample_world ''data/run.results.json'' two_text) =
     \<lparr>stdout = [''Wrote data/plot-run.results.png''],
      written = [(''data/plot-run.results.png'',
                  the_figure [JStr ''First'', JStr ''Second''] [JNum 123, JNum (31 / 2)]
                    [\<lparr>text_x = 12423 / 100, text_y = 0, text_s = ''123 ms'', text_va = ''center''\<rparr>,
                     \<lparr>text_x = 1673 / 100, text_y = 1, text_s = ''16 ms'', text_va = ''center''\<rparr>])],
      status = Exited 0\<rparr>"
  by (rule sample_run [OF sample_loads_eval(3)]) (simp_all add: two_doc_def chart_eval)

section \<open>Properties\<close>

text \<open>
  C1. Whenever the script runs to completion, the file it writes and the path it
  reports are \<^verbatim>\<open>p.parent / ('plot-' + p.stem + '.png')\<close> for the input path \<open>p\<close>:
  the root and the components of the parent directory, followed by the one new
  component. The stem is the file name with only its final extension removed:
  a name \<open>a.b\<close> with \<open>a\<close> and \<open>b\<close> non-empty and no dot in \<open>b\<close> has stem \<open>a\<close>, and
  any other name is its own stem. In particular \<^verbatim>\<open>data/run.results.json\<close> gives
  \<^verbatim>\<open>data/plot-run.results.png\<close>.
\<close>

theorem output_path:
  assumes "status (main loads w) = Exited 0"
    and "p = Path (argv w ! 1)"
    and "key = ''plot-'' @ stem p @ ''.png''"
  shows "(\<exists>fig. written (main loads w) = [(path_str (out_path p), fig)])
       \<and> stdout (main loads w) = [''Wrote '' @ path_str (out_path p)]
       \<and> out_path p = truediv (parent p) key
       \<and> out_path p = \<lparr>p_root = p_root (parent p), p_tail = p_tail (parent p) @ [key]\<rparr>
       \<and> path_str (out_path p) =
           (if p_tail (parent p) = [] then p_root p @ key else path_str (parent p) @ ''/'' @ key)
       \<and> (\<forall>a b. name p = a @ CHR ''.'' # b \<and> a \<noteq> [] \<and> b \<noteq> [] \<and> CHR ''.'' \<notin> set b
              \<longrightarrow> stem p = a)
       \<and> ((\<nexists>a b. name p = a @ CHR ''.'' # b \<and> a \<noteq> [] \<and> b \<noteq> [] \<and> CHR ''.'' \<notin> set b)
              \<longrightarrow> stem p = name p)
       \<and> path_str (out_path (Path ''data/run.results.json'')) = ''data/plot-run.results.png''"
proof -
  from assms(1) have "written (main loads w) \<noteq> []" by (rule main_exit0)
  from main_written [OF this] obtain names avgs texts where
    "main loads w =
       \<lparr>stdout = [''Wrote '' @ path_str (out_path (Path (argv w ! 1)))],
        written = [(path_str (out_path (Path (argv w ! 1))), the_figure names avgs texts)],
        status = Exited 0\<rparr>"
    by blast
  then have run: "(\<exists>fig. written (main loads w) = [(path_str (out_path p), fig)])"
    "stdout (main loads w) = [''Wrote '' @ path_str (out_path p)]"
    using assms(2) by simp_all
  have parts: "out_path p = \<lparr>p_root = p_root (parent p), p_tail = p_tail (parent p) @ [key]\<rparr>"
    using assms(2,3) by (simp add: out_path_parts)
  have str: "path_str (out_path p) =
           (if p_tail (parent p) = [] then p_root p @ key else path_str (parent p) @ ''/'' @ key)"
    using assms(2,3) by (simp add: out_path_str)
  have ext: "\<forall>a b. name p = a @ CHR ''.'' # b \<and> a \<noteq> [] \<and> b \<noteq> [] \<and> CHR ''.'' \<notin> set b
              \<longrightarrow> stem p = a"
  proof (intro allI impI)
    fix a b
    assume "name p = a @ CHR ''.'' # b \<and> a \<noteq> [] \<and> b \<noteq> [] \<and> CHR ''.'' \<notin> set b"
    then show "stem p = a" by (elim conjE) (rule stem_ext)
  qed
  have noext: "(\<nexists>a b. name p = a @ CHR ''.'' # b \<and> a \<noteq> [] \<and> b \<noteq> [] \<and> CHR ''.'' \<notin> set b)
              \<longrightarrow> stem p = name p"
    by (rule impI) (rule stem_no_ext)
  have ex: "path_str (out_path (Path ''data/run.results.json'')) = ''data/plot-run.results.png''"
    by (simp add: path_eval Let_def)
  have def: "out_path p = truediv (parent p) key"
    using assms(3) by (simp add: out_path_def)
  show ?thesis
    by (intro conjI run(1) run(2) def parts str ext noext ex)
qed

theorem output_path_witness:
  "status (main sample_loads (sample_world ''data/run.results.json'' two_text)) = Exited 0
   \<and> stdout (main sample_loads (sample_world ''data/run.results.json'' two_text))
       = [''Wrote data/plot-run.results.png'']"
proof -
  have h: "status (main sample_loads (sample_world ''data/run.results.json'' two_text)) = Exited 0"
    by (simp add: two_run)
  from output_path [OF h refl refl]
  have "stdout (main sample_loads (sample_world ''data/run.results.json'' two_text))
      = [''Wrote '' @ path_str (out_path
           (Path (argv (sample_world ''data/run.results.json'' two_text) ! 1)))]"
    by (rule conjunct2 [THEN conjunct1])
  then show ?thesis using h by (simp add: sample_world_eval sample_path_eval)
qed



text \<open>
  C3, as stated, speaks of a path that does not refer to an existing file. A
  directory is such a path, and for it the script does not take the
  "File not found" branch: \<^verbatim>\<open>p.exists()\<close> is true for a directory.
\<close>

theorem not_found_counterexample:
  "fs (sample_world ''data'' ''[]'') (path_str (Path (argv (sample_world ''data'' ''[]'') ! 1)))
     = Some Directory
   \<and> stdout (main sample_loads (sample_world ''data'' ''[]'')) = []
   \<and> status (main sample_loads (sample_world ''data'' ''[]'')) = Uncaught IsADirectoryError
   \<and> exit_code (status (main sample_loads (sample_world ''data'' ''[]''))) = 1"
  by (simp add: main_def Let_def exists_def read_text_def crash_def sample_world_eval
      sample_path_eval)

text \<open>
  C3, amended. When the path argument refers to nothing that exists, in the
  sense of the script's own test (\<^verbatim>\<open>stat\<close> finds neither a file nor a directory
  and fails with one of the errors that \<^verbatim>\<open>Path.exists()\<close> reads as absence:
  \<^verbatim>\<open>ENOENT\<close>, \<^verbatim>\<open>ENOTDIR\<close>, \<^verbatim>\<open>EBADF\<close>, \<^verbatim>\<open>ELOOP\<close>), the script prints
  \<^verbatim>\<open>File not found: \<close> followed by the offending path (as \<^verbatim>\<open>str(p)\<close> renders
  it), exits with code 2 and writes no file. Any other failure of \<^verbatim>\<open>stat\<close>, a
  name too long for the file system for one, is raised by \<^verbatim>\<open>exists()\<close> and
  is not within this statement.
\<close>

theorem not_found:
  assumes "2 \<le> length (argv w)"
    and "fs w (path_str (Path (argv w ! 1))) = None"
    and "ignore_error (stat_errno w (path_str (Path (argv w ! 1))))"
  shows "stdout (main loads w) = [''File not found: '' @ path_str (Path (argv w ! 1))]
       \<and> status (main loads w) = Exited 2
       \<and> exit_code (status (main loads w)) = 2
       \<and> written (main loads w) = []"
  using assms by (simp add: main_def Let_def exists_def)

theorem not_found_witness:
  "2 \<le> length (argv (sample_world ''/tmp/does-not-exist.json'' ''[]''))
   \<and> fs (sample_world ''/tmp/does-not-exist.json'' ''[]'')
        (path_str (Path (argv (sample_world ''/tmp/does-not-exist.json'' ''[]'') ! 1))) = None
   \<and> ignore_error (stat_errno (sample_world ''/tmp/does-not-exist.json'' ''[]'')
        (path_str (Path (argv (sample_world ''/tmp/does-not-exist.json'' ''[]'') ! 1))))
   \<and> stdout (main sample_loads (sample_world ''/tmp/does-not-exist.json'' ''[]''))
        = [''File not found: /tmp/does-not-exist.json'']
   \<and> exit_code (status (main sample_loads (sample_world ''/tmp/does-not-exist.json'' ''[]''))) = 2
   \<and> written (main sample_loads (sample_world ''/tmp/does-not-exist.json'' ''[]'')) = []"
  using not_found [of "sample_world ''/tmp/does-not-exist.json'' ''[]''" sample_loads]
  by (simp add: sample_world_eval sample_path_eval ignore_error_def)

text \<open>
  C4. Called with no path argument, the script prints exactly the usage line
  \<^verbatim>\<open>Usage: plot_performance.py <baseline.json>\<close>, exits with code 2 and writes
  no file.
\<close>

theorem usage_error:
  assumes "length (argv w) < 2"
  shows "stdout (main loads w) = [''Usage: plot_performance.py <baseline.json>'']
       \<and> status (main loads w) = Exited 2
       \<and> exit_code (status (main loads w)) = 2
       \<and> written (main loads w) = []"
  using assms by (simp add: main_def)

theorem usage_error_witness:
  "length (argv \<lparr>argv = [''plot_performance.py''], fs = (\<lambda>s. None), stat_errno = (\<lambda>s. ENOENT)\<rparr>) < 2
   \<and> stdout (main (\<lambda>s. Inl JSONDecodeError) \<lparr>argv = [''plot_performance.py''], fs = (\<lambda>s. None), stat_errno = (\<lambda>s. ENOENT)\<rparr>)
       = [''Usage: plot_performance.py <baseline.json>'']
   \<and> exit_code (status (main (\<lambda>s. Inl JSONDecodeError) \<lparr>argv = [''plot_performance.py''], fs = (\<lambda>s. None), stat_errno = (\<lambda>s. ENOENT)\<rparr>)) = 2"
  using usage_error [of "\<lparr>argv = [''plot_performance.py''], fs = (\<lambda>s. None), stat_errno = (\<lambda>s. ENOENT)\<rparr>" "\<lambda>s. Inl JSONDecodeError"]
  by simp

text \<open>
  C5. Bars are coloured from a palette of four distinct colours, used
  cyclically: in every run that draws the chart of an array of \<open>n\<close> entries,
  bar \<open>i\<close> has the colour \<open>palette ! (i mod 4)\<close> for every \<open>i < n\<close>. (The script
  passes the first \<open>min n 4\<close> colours; \<^verbatim>\<open>barh\<close> cycles through them.)
\<close>

theorem bar_colors:
  assumes "fs w (path_str (Path (argv w ! 1))) = Some (RegularFile txt)"
    and "loads txt = Inr (JArr recs)"
    and "written (main loads w) = [(out, fig)]"
  shows "length (fig_bars fig) = length recs
       \<and> (\<forall>i<length recs. bar_color (fig_bars fig ! i) = palette ! (i mod 4))
       \<and> distinct palette \<and> length palette = 4"
proof -
  from main_array [OF assms] obtain names avgs texts where
    m: "getitems ''Name'' recs = Inr names" "getitems ''AvgMs'' recs = Inr avgs"
       "fig = the_figure names avgs texts"
    by blast
  have len: "length names = length recs" "length avgs = length recs"
    using m(1,2) by (simp_all add: getitems_length)
  have bars: "fig_bars fig = barh names avgs (take (length recs) palette)"
    using m(3) len by (simp add: the_figure_def)
  have "length (fig_bars fig) = length recs"
    using bars len by (simp add: barh_length)
  moreover have "\<forall>i<length recs. bar_color (fig_bars fig ! i) = palette ! (i mod 4)"
    using bars len by (simp add: barh_nth cycle_palette)
  ultimately show ?thesis using palette_distinct by simp
qed

theorem bar_colors_witness:
  "map bar_color
     (fig_bars (snd (hd (written (main sample_loads (sample_world ''data/run.results.json'' five_text))))))
   = [''#2b8cbe'', ''#7bccc4'', ''#a6bddb'', ''#d0d1e6'', ''#2b8cbe'']"
proof -
  let ?w = "sample_world ''data/run.results.json'' five_text"
  have f: "fs ?w (path_str (Path (argv ?w ! 1))) = Some (RegularFile five_text)"
    by (simp add: sample_world_eval sample_path_eval)
  have l: "sample_loads five_text = Inr five_doc" by (rule sample_loads_eval)
  note t = bar_colors [OF f l [unfolded five_doc_def] five_run [THEN arg_cong [where f = written], simplified]]
  have b: "length (fig_bars (snd (hd (written (main sample_loads ?w))))) = 5"
    using t by (simp add: five_run)
  have c: "\<forall>i<5. bar_color (fig_bars (snd (hd (written (main sample_loads ?w)))) ! i) = palette ! (i mod 4)"
    using t by (simp add: five_run)
  have "map bar_color (fig_bars (snd (hd (written (main sample_loads ?w)))))
      = map (\<lambda>i. palette ! (i mod 4)) [0..<5]"
    using b c by (intro nth_equalityI) simp_all
  then show ?thesis by (simp add: palette_def upt_rec)
qed

text \<open>
  C6. The claim has every annotation sit, vertically centred, on its own bar.
  The loop gives the annotation of record \<open>i\<close> the height \<open>i\<close>, which is where bar
  \<open>i\<close> is only as long as no name repeats: \<^verbatim>\<open>barh\<close> places the bars by name.
  For the records \<^verbatim>\<open>A\<close>/10, \<^verbatim>\<open>A\<close>/20, \<^verbatim>\<open>B\<close>/30, a well-formed input, the
  run succeeds with the bars of widths 10, 20, 30 at the positions 0, 0, 1 and
  the annotations \<^verbatim>\<open>10 ms\<close>, \<^verbatim>\<open>20 ms\<close>, \<^verbatim>\<open>30 ms\<close> at the heights 0, 1, 2:
  the label of the second record lies on the bar of the third, and the label
  of the third on no bar at all.
\<close>

theorem annotation_off_bar:
  "sample_loads dup_text
     = Inr (JArr [JObj [(''Name'', JStr ''A''), (''AvgMs'', JNum 10)],
                  JObj [(''Name'', JStr ''A''), (''AvgMs'', JNum 20)],
                  JObj [(''Name'', JStr ''B''), (''AvgMs'', JNum 30)]])
   \<and> list_all is_record [JObj [(''Name'', JStr ''A''), (''AvgMs'', JNum 10)],
                          JObj [(''Name'', JStr ''A''), (''AvgMs'', JNum 20)],
                          JObj [(''Name'', JStr ''B''), (''AvgMs'', JNum 30)]]
   \<and> status (main sample_loads (sample_world ''data/run.results.json'' dup_text)) = Exited 0
   \<and> map (\<lambda>t. (text_s t, text_y t))
       (fig_texts (snd (hd (written (main sample_loads (sample_world ''data/run.results.json'' dup_text))))))
       = [(''10 ms'', 0), (''20 ms'', 1), (''30 ms'', 2)]
   \<and> map (\<lambda>b. (bar_width b, bar_pos b))
       (fig_bars (snd (hd (written (main sample_loads (sample_world ''data/run.results.json'' dup_text))))))
       = [(JNum 10, 0), (JNum 20, 0), (JNum 30, 1)]"
  using sample_loads_eval(4)
  by (simp add: dup_run dup_doc_def is_record_def the_figure_def barh_def)

text \<open>
  C7. The two comprehensions do give the names and the averages in input
  order, one entry per record, and \<^verbatim>\<open>barh\<close> receives them so. The bars are not
  always rendered in that order: a bar is placed by its name, and records of
  one name share a position. For the records \<^verbatim>\<open>A\<close>/10, \<^verbatim>\<open>A\<close>/20, \<^verbatim>\<open>B\<close>/30
  the names extracted are \<^verbatim>\<open>A\<close>, \<^verbatim>\<open>A\<close>, \<^verbatim>\<open>B\<close> and the averages 10, 20, 30,
  but the three bars are at the positions 0, 0 and 1: the second bar is drawn
  over the first, where the loop of the script (which puts label \<open>i\<close> at height
  \<open>i\<close>) expects it at position 1.
\<close>

theorem bars_share_position:
  "comprehension ''Name'' dup_doc = Inr [JStr ''A'', JStr ''A'', JStr ''B'']
   \<and> comprehension ''AvgMs'' dup_doc = Inr [JNum 10, JNum 20, JNum 30]
   \<and> written (main sample_loads (sample_world ''data/run.results.json'' dup_text)) \<noteq> []
   \<and> map (\<lambda>b. (bar_label b, bar_pos b))
       (fig_bars (snd (hd (written (main sample_loads (sample_world ''data/run.results.json'' dup_text))))))
       = [(JStr ''A'', 0), (JStr ''A'', 0), (JStr ''B'', 1)]"
  by (simp add: dup_run dup_doc_def comprehension_def the_figure_def barh_def)

text \<open>
  C8, as stated, has every document that is not an array of objects fail. The
  empty object \<^verbatim>\<open>{}\<close> is valid JSON and not an array, yet iterating over it
  yields nothing: the script draws an empty chart and exits with status 0.
\<close>

theorem malformed_input_counterexample:
  "sample_loads ''{}'' = Inr (JObj [])
   \<and> status (main sample_loads (sample_world ''data/run.results.json'' ''{}'')) = Exited 0
   \<and> exit_code (status (main sample_loads (sample_world ''data/run.results.json'' ''{}''))) = 0
   \<and> map fst (written (main sample_loads (sample_world ''data/run.results.json'' ''{}'')))
       = [''data/plot-run.results.png'']"
  using sample_loads_eval(2) by (simp add: empty_object_run)

text \<open>
  C8, amended. When \<^verbatim>\<open>json.loads\<close> rejects the file's text (it raises), or the
  text parses to a value that is not iterable (\<^verbatim>\<open>null\<close>, a boolean, a
  number), to a non-empty string or a non-empty object, or to an array with
  an element that is not an object carrying both \<^verbatim>\<open>Name\<close> and \<^verbatim>\<open>AvgMs\<close>, the
  run ends with an uncaught exception (the parser's own, or \<^verbatim>\<open>TypeError\<close> or
  \<^verbatim>\<open>KeyError\<close>), a non-zero exit status, nothing printed on standard output
  and no file written. (What the parser rejects is not the same as what is
  not JSON: \<^verbatim>\<open>json.loads\<close> takes \<^verbatim>\<open>NaN\<close> and \<^verbatim>\<open>Infinity\<close>, which JSON does
  not have.)
\<close>

theorem malformed_input:
  assumes "2 \<le> length (argv w)"
    and "fs w (path_str (Path (argv w ! 1))) = Some (RegularFile txt)"
    and "case loads txt of Inl e \<Rightarrow> True | Inr data \<Rightarrow> rejected data"
  shows "\<exists>e. status (main loads w) = Uncaught e
           \<and> (case loads txt of Inl e' \<Rightarrow> e = e' | Inr data \<Rightarrow> e = TypeError \<or> e = KeyError)
           \<and> exit_code (status (main loads w)) \<noteq> 0
           \<and> stdout (main loads w) = []
           \<and> written (main loads w) = []"
proof (cases "loads txt")
  case (Inl e)
  from main_load_error [where loads = loads, OF assms(1,2) Inl] show ?thesis
    using Inl by (simp add: crash_def)
next
  case (Inr data)
  then have "rejected data" using assms(3) by simp
  from rejected_extract [OF this] obtain e where
    e: "comprehension ''Name'' data = Inl e
        \<or> (\<exists>names. comprehension ''Name'' data = Inr names) \<and> comprehension ''AvgMs'' data = Inl e"
    and k: "e = TypeError \<or> e = KeyError"
    by blast
  from main_extract_error [where loads = loads, OF assms(1,2) Inr e] show ?thesis
    using Inr k by (simp add: crash_def)
qed

theorem malformed_input_witness:
  "sample_loads ''not json'' = Inl JSONDecodeError
   \<and> status (main sample_loads (sample_world ''data/run.results.json'' ''not json''))
       = Uncaught JSONDecodeError
   \<and> written (main sample_loads (sample_world ''data/run.results.json'' ''not json'')) = []
   \<and> sample_loads nameless_text = Inr (JArr [JObj [(''AvgMs'', JNum 10)]])
   \<and> rejected (JArr [JObj [(''AvgMs'', JNum 10)]])
   \<and> status (main sample_loads (sample_world ''data/run.results.json'' nameless_text))
       = Uncaught KeyError
   \<and> written (main sample_loads (sample_world ''data/run.results.json'' nameless_text)) = []"
proof -
  let ?v = "sample_world ''data/run.results.json'' ''not json''"
  let ?w = "sample_world ''data/run.results.json'' nameless_text"
  have g1: "2 \<le> length (argv ?v)" by (simp add: sample_world_eval)
  have g2: "fs ?v (path_str (Path (argv ?v ! 1))) = Some (RegularFile ''not json'')"
    by (simp add: sample_world_eval sample_path_eval)
  have k: "sample_loads ''not json'' = Inl JSONDecodeError"
    by (simp add: sample_loads_def two_text_def dup_text_def five_text_def nameless_text_def)
  have g3: "case sample_loads ''not json'' of Inl e \<Rightarrow> True | Inr data \<Rightarrow> rejected data"
    using k by simp
  from malformed_input [where loads = sample_loads, OF g1 g2 g3] obtain e' where
    v: "status (main sample_loads ?v) = Uncaught e'"
       "case sample_loads ''not json'' of Inl e'' \<Rightarrow> e' = e''
        | Inr data \<Rightarrow> e' = TypeError \<or> e' = KeyError"
       "written (main sample_loads ?v) = []"
    by blast
  from v(2) k have "e' = JSONDecodeError" by simp
  with v(1) have sv: "status (main sample_loads ?v) = Uncaught JSONDecodeError" by simp
  have h1: "2 \<le> length (argv ?w)" by (simp add: sample_world_eval)
  have h2: "fs ?w (path_str (Path (argv ?w ! 1))) = Some (RegularFile nameless_text)"
    by (simp add: sample_world_eval sample_path_eval)
  have l: "sample_loads nameless_text = Inr (JArr [JObj [(''AvgMs'', JNum 10)]])"
    using sample_loads_eval(6) by (simp add: nameless_doc_def)
  have r: "rejected (JArr [JObj [(''AvgMs'', JNum 10)]])"
    by (simp add: rejected_def has_fields_def)
  have h3: "case sample_loads nameless_text of Inl e \<Rightarrow> True | Inr data \<Rightarrow> rejected data"
    using l r by simp
  from malformed_input [where loads = sample_loads, OF h1 h2 h3] obtain e where
    e: "status (main sample_loads ?w) = Uncaught e" "written (main sample_loads ?w) = []"
    by blast
  have "status (main sample_loads ?w) = Uncaught KeyError"
    using l h1 h2
    by (simp add: main_def Let_def exists_def read_text_def comprehension_def crash_def)
  then show ?thesis using k sv v(3) l r e(2) by simp
qed

text \<open>
  C9. Every run in which the save step succeeded prints \<^verbatim>\<open>Wrote\<close>, a space and
  the path of the file it wrote, and ends with exit code 0.
\<close>

theorem wrote_message:
  assumes "written (main loads w) \<noteq> []"
  shows "\<exists>out fig. written (main loads w) = [(out, fig)]
           \<and> stdout (main loads w) = [''Wrote '' @ out]
           \<and> status (main loads w) = Exited 0
           \<and> exit_code (status (main loads w)) = 0"
proof -
  from main_written [OF assms] obtain names avgs texts where
    "main loads w =
       \<lparr>stdout = [''Wrote '' @ path_str (out_path (Path (argv w ! 1)))],
        written = [(path_str (out_path (Path (argv w ! 1))), the_figure names avgs texts)],
        status = Exited 0\<rparr>"
    by blast
  then show ?thesis by simp
qed

theorem wrote_message_witness:
  "written (main sample_loads (sample_world ''data/run.results.json'' five_text)) \<noteq> []
   \<and> stdout (main sample_loads (sample_world ''data/run.results.json'' five_text))
       = [''Wrote data/plot-run.results.png'']
   \<and> exit_code (status (main sample_loads (sample_world ''data/run.results.json'' five_text))) = 0"
  using wrote_message [of sample_loads "sample_world ''data/run.results.json'' five_text"]
  by (simp add: five_run)

text \<open>
  C10. The path check tests existence only. For a path that exists but is a
  directory the "File not found" branch is not taken; the script goes on to
  \<^verbatim>\<open>read_text\<close>, which raises, and the run ends with an uncaught
  \<^verbatim>\<open>IsADirectoryError\<close>, nothing on standard output, no file written and an
  exit status other than 2 and 0.
\<close>

theorem directory_path:
  assumes "2 \<le> length (argv w)"
    and "fs w (path_str (Path (argv w ! 1))) = Some Directory"
  shows "status (main loads w) = Uncaught IsADirectoryError
       \<and> exit_code (status (main loads w)) \<noteq> 2
       \<and> exit_code (status (main loads w)) \<noteq> 0
       \<and> stdout (main loads w) = []
       \<and> written (main loads w) = []"
  using assms by (simp add: main_def Let_def exists_def read_text_def crash_def)

theorem directory_path_witness:
  "2 \<le> length (argv (sample_world ''/tmp'' ''[]''))
   \<and> fs (sample_world ''/tmp'' ''[]'') (path_str (Path (argv (sample_world ''/tmp'' ''[]'') ! 1)))
       = Some Directory
   \<and> status (main sample_loads (sample_world ''/tmp'' ''[]'')) = Uncaught IsADirectoryError
   \<and> stdout (main sample_loads (sample_world ''/tmp'' ''[]'')) = []"
  using directory_path [of "sample_world ''/tmp'' ''[]''" sample_loads]
  by (simp add: sample_world_eval sample_path_eval)

end
